theory Spec2Isabelle
  imports Main
begin

section \<open>Data model\<close>

text \<open>
  Values the source types as \<open>any\<close> (tool arguments, tool output, event payloads) are
  JSON values. An object is an association list with distinct keys, read with \<open>map_of\<close>.
\<close>

datatype json =
    JNull
  | JBool bool
  | JNum int
  | JStr string
  | JArr "json list"
  | JObj "(string \<times> json) list"

text \<open>JavaScript truthiness of a JSON value, as tested by \<open>&&\<close>, \<open>||\<close> and \<open>!\<close>.\<close>

fun truthy :: "json \<Rightarrow> bool" where
  "truthy JNull = False"
| "truthy (JBool b) = b"
| "truthy (JNum n) = (n \<noteq> 0)"
| "truthy (JStr s) = (s \<noteq> [])"
| "truthy (JArr xs) = True"
| "truthy (JObj kvs) = True"

text \<open>
  \<open>v?.key\<close> for the keys the source reads (\<open>new_code\<close>, \<open>response_on_reject\<close>):
  \<open>None\<close> is \<open>undefined\<close>, which is also what a receiver that is \<open>undefined\<close>,
  \<open>null\<close> or not an object gives.
\<close>

fun opt_prop :: "json option \<Rightarrow> string \<Rightarrow> json option" where
  "opt_prop (Some (JObj kvs)) k = map_of kvs k"
| "opt_prop v k = None"

datatype action_kind =
    User_message
  | Tool_started
  | Exec_request
  | Tool_completed
  | Tool_failed
  | Exec_result
  | Assistant_thought
  | Final_answer
  | System_notice

datatype action_status = Running | Done | Failed

text \<open>
  An Action is a JavaScript object built by object literals and spreads, so a field of
  one kind survives a merge into another kind: every field other than \<open>status\<close> is
  optional (\<open>None\<close> is an absent key or \<open>undefined\<close>). Every object the source
  builds sets \<open>status\<close>.
\<close>

record action =
  action_id :: "string option"
  kind :: "action_kind option"
  status :: action_status
  timestamp :: "string option"
  toolName :: "string option"
  arguments :: "json option"
  responseOnReject :: "json option"
  result :: "json option"
  error :: "string option"
  content :: "json option"
  message :: "json option"
  exec_output :: "string option"

text \<open>The object literal that sets only the four shared fields.\<close>

definition new_action :: "string \<Rightarrow> action_kind \<Rightarrow> action_status \<Rightarrow> string \<Rightarrow> action" where
  "new_action i k st ts =
     \<lparr>action_id = Some i, kind = Some k, status = st, timestamp = Some ts,
      toolName = None, arguments = None, responseOnReject = None, result = None,
      error = None, content = None, message = None, exec_output = None\<rparr>"

record run =
  taskId :: string
  prompt :: string
  actions :: "action list"

record registry =
  runs :: "string \<rightharpoonup> run"
  runOrder :: "string list"

section \<open>Run registry and action store\<close>

text \<open>
  Modelled from the spec: \<open>createRun\<close>, \<open>addAction\<close> and \<open>updateAction\<close> of
  \<open>context/RunContext\<close>, which the hooks and the application import but which is not
  among the source files. The spec, section 4.1:
  \<^item> \<open>createRun(taskId, prompt)\<close> inserts a new run with an empty action sequence if
    \<open>taskId\<close> is absent and appends \<open>taskId\<close> to \<open>runOrder\<close>; it must not duplicate a
    run that is present.
  \<^item> \<open>addAction(taskId, action)\<close> appends the action to the run's sequence and fails
    silently if \<open>taskId\<close> is unknown.
  \<^item> \<open>updateAction(taskId, actionId, updater)\<close> looks up the existing action with
    \<open>actionId\<close> in the run (\<open>undefined\<close> if absent), applies the updater and upserts
    the outcome: inserting if absent, replacing if present.
  The spec does not say what \<open>updateAction\<close> does for an unknown \<open>taskId\<close>; the model
  leaves the registry unchanged there, as \<open>addAction\<close> does.
\<close>

definition createRun :: "string \<Rightarrow> string \<Rightarrow> registry \<Rightarrow> registry" where
  "createRun t p reg =
     (case runs reg t of
        Some r \<Rightarrow> reg
      | None \<Rightarrow>
          reg\<lparr>runs := (runs reg)(t \<mapsto> \<lparr>taskId = t, prompt = p, actions = []\<rparr>),
              runOrder := runOrder reg @ [t]\<rparr>)"

definition addAction :: "string \<Rightarrow> action \<Rightarrow> registry \<Rightarrow> registry" where
  "addAction t a reg =
     (case runs reg t of
        None \<Rightarrow> reg
      | Some r \<Rightarrow> reg\<lparr>runs := (runs reg)(t \<mapsto> r\<lparr>actions := actions r @ [a]\<rparr>)\<rparr>)"

text \<open>
  Modelled from the spec: the upsert of \<open>updateAction\<close> on one run's sequence. The
  existing action is the first one whose \<open>id\<close> is the given one; it is replaced in
  place. Without one the updater is applied to \<open>undefined\<close> and its outcome appended.
\<close>

fun upsert :: "string option \<Rightarrow> (action option \<Rightarrow> action) \<Rightarrow> action list \<Rightarrow> action list" where
  "upsert i f [] = [f None]"
| "upsert i f (a # as) =
     (if action_id a = i then f (Some a) # as else a # upsert i f as)"

definition updateAction ::
  "string \<Rightarrow> string option \<Rightarrow> (action option \<Rightarrow> action) \<Rightarrow> registry \<Rightarrow> registry" where
  "updateAction t i f reg =
     (case runs reg t of
        None \<Rightarrow> reg
      | Some r \<Rightarrow> reg\<lparr>runs := (runs reg)(t \<mapsto> r\<lparr>actions := upsert i f (actions r)\<rparr>)\<rparr>)"

section \<open>Session state\<close>

datatype execution_choice = Accept | Reject

text \<open>
  The state hooks of \<open>App\<close> together with the registry of the runs context. \<open>userId\<close> is
  the constant \<open>USER_ID\<close>, fixed when the module loads.
\<close>

record app_state =
  registry :: registry
  userId :: string
  code :: string
  proposedCode :: "json option"
  input :: string
  loading :: bool
  currentTaskId :: "string option"
  cancelling :: bool
  executingCode :: bool
  executionAction :: "execution_choice option"

section \<open>Server events\<close>

text \<open>
  A tool-call descriptor \<open>{id, function: {name, arguments}}\<close>, and the \<open>result\<close> object
  of a completed event, as the source reads them through the type \<open>AgentEvent\<close>.
\<close>

record tool_function =
  fn_name :: string
  fn_arguments :: "json option"

record tool_call =
  tc_id :: string
  tc_function :: tool_function

record tool_result =
  tool_call :: "tool_call option"
  output_data :: "json option"

text \<open>
  The payload \<open>event.data\<close>: an object with \<open>args\<close>, an object with \<open>result\<close>, or any
  other value (the text of an agent output).
\<close>

datatype event_data =
    Data_args "tool_call list"
  | Data_result tool_result
  | Data_value json

record agent_event =
  event_type :: string
  task_id :: string
  event_timestamp :: string
  data :: event_data
  event_error :: "string option"

text \<open>\<open>event.data?.args?.[0]\<close> and \<open>event.data?.result\<close>.\<close>

fun data_args0 :: "event_data \<Rightarrow> tool_call option" where
  "data_args0 (Data_args (tc # tcs)) = Some tc"
| "data_args0 d = None"

fun data_result :: "event_data \<Rightarrow> tool_result option" where
  "data_result (Data_result r) = Some r"
| "data_result d = None"

text \<open>The payload as the JSON value it was parsed from, which \<open>agent_output\<close> stores whole.\<close>

definition json_of_tool_call :: "tool_call \<Rightarrow> json" where
  "json_of_tool_call tc =
     JObj [(''id'', JStr (tc_id tc)),
           (''function'',
            JObj ((''name'', JStr (fn_name (tc_function tc))) #
                  (case fn_arguments (tc_function tc) of
                     None \<Rightarrow> []
                   | Some a \<Rightarrow> [(''arguments'', a)])))]"

definition json_of_tool_result :: "tool_result \<Rightarrow> json" where
  "json_of_tool_result r =
     JObj ((case tool_call r of None \<Rightarrow> [] | Some tc \<Rightarrow> [(''tool_call'', json_of_tool_call tc)]) @
           (case output_data r of None \<Rightarrow> [] | Some v \<Rightarrow> [(''output_data'', v)]))"

fun json_of_data :: "event_data \<Rightarrow> json" where
  "json_of_data (Data_args tcs) = JObj [(''args'', JArr (map json_of_tool_call tcs))]"
| "json_of_data (Data_result r) = JObj [(''result'', json_of_tool_result r)]"
| "json_of_data (Data_value v) = v"

section \<open>Identifiers made from the clock\<close>

text \<open>
  \<open>Date.now()\<close> is a reading of the clock in milliseconds, an input of each handler;
  a template literal prints it in decimal.
\<close>

definition digit_char :: "nat \<Rightarrow> char" where
  "digit_char d = char_of (48 + d)"

fun decimal :: "nat \<Rightarrow> string" where
  "decimal n = (if n < 10 then [digit_char n] else decimal (n div 10) @ [digit_char (n mod 10)])"

declare decimal.simps [simp del]

section \<open>The event reducer: handleWSMessage\<close>

definition startAction :: "agent_event \<Rightarrow> tool_call \<Rightarrow> action" where
  "startAction e tc =
     (if fn_name (tc_function tc) = ''request_code_execution''
      then (new_action (tc_id tc) Exec_request Running (event_timestamp e))
             \<lparr>responseOnReject := opt_prop (fn_arguments (tc_function tc)) ''response_on_reject''\<rparr>
      else (new_action (tc_id tc) Tool_started Running (event_timestamp e))
             \<lparr>toolName := Some (fn_name (tc_function tc)),
              arguments := fn_arguments (tc_function tc)\<rparr>)"

text \<open>The updater of the completed branch: the spread of \<open>prev\<close>, or of the default record.\<close>

definition completed_updater :: "agent_event \<Rightarrow> tool_call \<Rightarrow> json option \<Rightarrow> action option \<Rightarrow> action" where
  "completed_updater e tc out prev =
     (case prev of
        Some p \<Rightarrow> p
      | None \<Rightarrow> (new_action (tc_id tc) Tool_completed Done (event_timestamp e))
                  \<lparr>toolName := Some (fn_name (tc_function tc))\<rparr>)
     \<lparr>kind := Some Tool_completed, status := Done, result := out\<rparr>"

definition failed_updater :: "agent_event \<Rightarrow> tool_call \<Rightarrow> action option \<Rightarrow> action" where
  "failed_updater e tc prev =
     (case prev of
        Some p \<Rightarrow> p
      | None \<Rightarrow> \<lparr>action_id = Some (tc_id tc), kind = Some Tool_failed, status = Failed,
                 timestamp = Some (event_timestamp e),
                 toolName = Some (fn_name (tc_function tc)), arguments = None,
                 responseOnReject = None, result = None, error = None, content = None,
                 message = None, exec_output = None\<rparr>)
     \<lparr>kind := Some Tool_failed, status := Failed, error := event_error e\<rparr>"

definition thoughtAction :: "nat \<Rightarrow> agent_event \<Rightarrow> json \<Rightarrow> action" where
  "thoughtAction now e out =
     (new_action (''thought_'' @ decimal now) Assistant_thought Done (event_timestamp e))
       \<lparr>content := Some out\<rparr>"

definition answerAction :: "nat \<Rightarrow> agent_event \<Rightarrow> action" where
  "answerAction now e =
     (new_action (''answer_'' @ decimal now) Final_answer Done (event_timestamp e))
       \<lparr>content := Some (json_of_data (data e))\<rparr>"

definition cancel_notice :: "nat \<Rightarrow> agent_event \<Rightarrow> action" where
  "cancel_notice now e =
     (new_action (''cancel_'' @ decimal now) System_notice Done (event_timestamp e))
       \<lparr>message := Some (JStr ''Task was cancelled.'')\<rparr>"

definition fail_notice :: "nat \<Rightarrow> agent_event \<Rightarrow> action" where
  "fail_notice now e =
     (new_action (''fail_'' @ decimal now) System_notice Done (event_timestamp e))
       \<lparr>message := Some (JStr ''Failed to get agent response.'')\<rparr>"

text \<open>\<open>typeof v === 'string'\<close>.\<close>

fun is_string :: "json option \<Rightarrow> bool" where
  "is_string (Some (JStr s)) = True"
| "is_string v = False"

text \<open>The branch of a completed event once its tool-call descriptor is known to be there.\<close>

definition tool_completed :: "nat \<Rightarrow> agent_event \<Rightarrow> tool_result \<Rightarrow> tool_call \<Rightarrow> app_state \<Rightarrow> app_state" where
  "tool_completed now e resp tc s =
     (let name = fn_name (tc_function tc);
          new_code = opt_prop (output_data resp) ''new_code'';
          s1 = (if name = ''edit_code'' \<and> (case new_code of None \<Rightarrow> False | Some v \<Rightarrow> truthy v)
                then s\<lparr>proposedCode := new_code\<rparr> else s)
      in if name = ''request_code_execution'' then s1
         else
           let s2 = s1\<lparr>registry := updateAction (task_id e) (Some (tc_id tc))
                                     (completed_updater e tc (output_data resp)) (registry s1)\<rparr>
           in if name = ''think'' \<and> is_string (output_data resp)
              then s2\<lparr>registry := addAction (task_id e)
                                     (thoughtAction now e (the (output_data resp))) (registry s2)\<rparr>
              else s2)"

definition handleWSMessage :: "nat \<Rightarrow> agent_event \<Rightarrow> app_state \<Rightarrow> app_state" where
  "handleWSMessage now e s =
     (if event_type e = ''progress_update_tool_action_started'' then
        (case data_args0 (data e) of
           None \<Rightarrow> s
         | Some tc \<Rightarrow> s\<lparr>registry := addAction (task_id e) (startAction e tc) (registry s)\<rparr>)
      else if event_type e = ''progress_update_tool_action_completed'' then
        (case data_result (data e) of
           None \<Rightarrow> s
         | Some resp \<Rightarrow>
             (case tool_call resp of
                None \<Rightarrow> s
              | Some tc \<Rightarrow> tool_completed now e resp tc s))
      else if event_type e = ''progress_update_tool_action_failed'' then
        (case data_args0 (data e) of
           None \<Rightarrow> s
         | Some tc \<Rightarrow>
             s\<lparr>registry := updateAction (task_id e) (Some (tc_id tc)) (failed_updater e tc)
                              (registry s)\<rparr>)
      else if event_type e = ''agent_output'' then
        s\<lparr>registry := addAction (task_id e) (answerAction now e) (registry s),
          loading := False, currentTaskId := None\<rparr>
      else if event_type e = ''run_cancelled'' then
        s\<lparr>registry := addAction (task_id e) (cancel_notice now e) (registry s),
          loading := False, cancelling := False, currentTaskId := None\<rparr>
      else if event_type e = ''run_failed'' then
        s\<lparr>registry := addAction (task_id e) (fail_notice now e) (registry s),
          loading := False, cancelling := False, currentTaskId := None\<rparr>
      else s)"

section \<open>Requests of the control channel\<close>

text \<open>
  What a \<open>fetch\<close> gives back once awaited: a response with \<open>ok\<close> set (and its parsed
  body), a response without it, or a rejected promise (a transport error).
\<close>

datatype 'a fetch_outcome = Response_ok 'a | Response_not_ok | Fetch_rejected

datatype request =
    Enqueue string string json "(string \<times> json option) list"
  | Cancel string string
  | Complete_tool string string "string option" json

text \<open>How an \<open>async\<close> handler ends: its promise resolves, or rejects with what was thrown.\<close>

datatype completion = Resolved | Rejected

text \<open>
  A task pointer counts as set where the source tests \<open>currentTaskId\<close> for truthiness:
  it is neither \<open>null\<close> nor the empty string.
\<close>

definition active_task :: "app_state \<Rightarrow> string option" where
  "active_task s =
     (case currentTaskId s of None \<Rightarrow> None | Some t \<Rightarrow> if t = [] then None else Some t)"

section \<open>The chat hook: sendPrompt and cancelCurrentTask\<close>

text \<open>
  \<open>String.prototype.trim\<close> on code units below 256: tab, line feed, vertical tab, form
  feed, carriage return, space and no-break space are white space.
\<close>

definition js_whitespace :: "char \<Rightarrow> bool" where
  "js_whitespace c = (c \<in> set [CHR 0x09, CHR 0x0A, CHR 0x0B, CHR 0x0C, CHR 0x0D, CHR 0x20, CHR 0xA0])"

definition trim :: "string \<Rightarrow> string" where
  "trim s = rev (dropWhile js_whitespace (rev (dropWhile js_whitespace s)))"

definition message_history :: "registry \<Rightarrow> (string \<times> json option) list" where
  "message_history reg =
     concat (map (\<lambda>i. case runs reg i of
                         None \<Rightarrow> []
                       | Some r \<Rightarrow> map (\<lambda>final. (''assistant'', content final))
                                     (filter (\<lambda>a. kind a = Some Final_answer) (actions r)))
                 (runOrder reg))"

text \<open>
  An \<open>async\<close> handler runs in two steps. The first runs up to the \<open>await\<close> and issues
  the request; the second runs on the state found when the request has settled, with
  the values the closure captured in the first.
\<close>

definition sendPrompt_begin :: "app_state \<Rightarrow> (app_state \<times> request) option" where
  "sendPrompt_begin s =
     (if trim (input s) = [] then None
      else Some (s\<lparr>loading := True, input := []\<rparr>,
                 Enqueue (userId s) (input s)
                   (case proposedCode s of None \<Rightarrow> JStr (code s) | Some c \<Rightarrow> c)
                   (message_history (registry s))))"

definition userAction :: "nat \<Rightarrow> string \<Rightarrow> string \<Rightarrow> action" where
  "userAction now stamp text =
     (new_action (''user_'' @ decimal now) User_message Done stamp)\<lparr>content := Some (JStr text)\<rparr>"

definition sendPrompt_settle ::
  "nat \<Rightarrow> string \<Rightarrow> string \<Rightarrow> string fetch_outcome \<Rightarrow> app_state \<Rightarrow> completion \<times> app_state" where
  "sendPrompt_settle now stamp text res s =
     (case res of
        Fetch_rejected \<Rightarrow> (Rejected, s)
      | Response_ok task \<Rightarrow>
          (Resolved,
           s\<lparr>registry := addAction task (userAction now stamp text)
                            (createRun task text (registry s)),
             currentTaskId := Some task\<rparr>)
      | Response_not_ok \<Rightarrow> (Resolved, s\<lparr>loading := False\<rparr>))"

definition sendPrompt ::
  "nat \<Rightarrow> string \<Rightarrow> string fetch_outcome \<Rightarrow> app_state \<Rightarrow> completion \<times> app_state \<times> request list" where
  "sendPrompt now stamp res s =
     (case sendPrompt_begin s of
        None \<Rightarrow> (Resolved, s, [])
      | Some (s1, req) \<Rightarrow>
          (case sendPrompt_settle now stamp (input s) res s1 of (c, s2) \<Rightarrow> (c, s2, [req])))"

definition cancel_begin :: "app_state \<Rightarrow> (app_state \<times> request) option" where
  "cancel_begin s =
     (case active_task s of
        None \<Rightarrow> None
      | Some t \<Rightarrow> if cancelling s then None
                  else Some (s\<lparr>cancelling := True\<rparr>, Cancel (userId s) t))"

definition cancel_settle :: "unit fetch_outcome \<Rightarrow> app_state \<Rightarrow> app_state" where
  "cancel_settle res s =
     (case res of
        Response_ok u \<Rightarrow> s
      | Response_not_ok \<Rightarrow> s\<lparr>cancelling := False\<rparr>
      | Fetch_rejected \<Rightarrow> s\<lparr>cancelling := False\<rparr>)"

definition cancelCurrentTask :: "unit fetch_outcome \<Rightarrow> app_state \<Rightarrow> app_state \<times> request list" where
  "cancelCurrentTask res s =
     (case cancel_begin s of
        None \<Rightarrow> (s, [])
      | Some (s1, req) \<Rightarrow> (cancel_settle res s1, [req]))"

section \<open>The pending execution request and its resolution\<close>

text \<open>\<open>runs[id]?.actions || []\<close>.\<close>

definition run_actions :: "registry \<Rightarrow> string \<Rightarrow> action list" where
  "run_actions reg t = (case runs reg t of None \<Rightarrow> [] | Some r \<Rightarrow> actions r)"

definition timelineActions :: "registry \<Rightarrow> action list" where
  "timelineActions reg = concat (map (run_actions reg) (runOrder reg))"

definition is_pending :: "action \<Rightarrow> bool" where
  "is_pending a = (kind a = Some Exec_request \<and> status a = Running)"

text \<open>\<open>null\<close> for an empty timeline and \<open>undefined\<close> for a search that fails are both \<open>None\<close>.\<close>

definition pendingExecRequest :: "registry \<Rightarrow> action option" where
  "pendingExecRequest reg =
     (if timelineActions reg = [] then None else find is_pending (rev (timelineActions reg)))"

text \<open>
  Following the spec's words: the most recent running \<open>exec_request\<close> is the last such
  action of the flattened timeline.
\<close>

definition latest_running_exec_request :: "registry \<Rightarrow> action option" where
  "latest_running_exec_request reg =
     (let running = filter is_pending (timelineActions reg)
      in if running = [] then None else Some (last running))"

text \<open>\<open>prev => ({...(prev as Action), status})\<close>: the spread of \<open>undefined\<close> adds no key.\<close>

definition status_updater :: "action_status \<Rightarrow> action option \<Rightarrow> action" where
  "status_updater st prev =
     (case prev of
        Some p \<Rightarrow> p\<lparr>status := st\<rparr>
      | None \<Rightarrow> \<lparr>action_id = None, kind = None, status = st, timestamp = None,
                 toolName = None, arguments = None, responseOnReject = None, result = None,
                 error = None, content = None, message = None, exec_output = None\<rparr>)"

text \<open>The \<open>try\<close> around the awaited \<open>complete_tool\<close> request: a rejection is logged.\<close>

definition complete_tool_settle :: "unit fetch_outcome \<Rightarrow> app_state \<Rightarrow> app_state" where
  "complete_tool_settle res s =
     (case res of Response_ok u \<Rightarrow> s | Response_not_ok \<Rightarrow> s | Fetch_rejected \<Rightarrow> s)"

text \<open>\<open>pendingExecRequest.responseOnReject ?? 'Execution rejected.'\<close>.\<close>

definition rejectMsg :: "action \<Rightarrow> json" where
  "rejectMsg p =
     (case responseOnReject p of
        None \<Rightarrow> JStr ''Execution rejected.''
      | Some JNull \<Rightarrow> JStr ''Execution rejected.''
      | Some v \<Rightarrow> v)"

definition noticeAction :: "nat \<Rightarrow> string \<Rightarrow> json \<Rightarrow> action" where
  "noticeAction now stamp msg =
     (new_action (''reject_'' @ decimal now) System_notice Done stamp)\<lparr>message := Some msg\<rparr>"

definition reject_begin :: "app_state \<Rightarrow> (app_state \<times> action \<times> string \<times> request) option" where
  "reject_begin s =
     (case pendingExecRequest (registry s) of
        None \<Rightarrow> None
      | Some p \<Rightarrow>
          (case active_task s of
             None \<Rightarrow> None
           | Some t \<Rightarrow>
               Some (s\<lparr>executingCode := True, executionAction := Some Reject\<rparr>, p, t,
                     Complete_tool (userId s) t (action_id p) (rejectMsg p))))"

definition reject_settle ::
  "nat \<Rightarrow> string \<Rightarrow> action \<Rightarrow> string \<Rightarrow> unit fetch_outcome \<Rightarrow> app_state \<Rightarrow> app_state" where
  "reject_settle now stamp p t res s =
     (let s1 = complete_tool_settle res s;
          r1 = updateAction t (action_id p) (status_updater Failed) (registry s1);
          notice = noticeAction now stamp (rejectMsg p);
          r2 = updateAction t (action_id notice) (\<lambda>prev. notice) r1
      in s1\<lparr>registry := r2, executingCode := False, executionAction := None\<rparr>)"

definition handleRejectExecution ::
  "nat \<Rightarrow> string \<Rightarrow> unit fetch_outcome \<Rightarrow> app_state \<Rightarrow> app_state \<times> request list" where
  "handleRejectExecution now stamp res s =
     (case reject_begin s of
        None \<Rightarrow> (s, [])
      | Some (s1, p, t, req) \<Rightarrow> (reject_settle now stamp p t res s1, [req]))"

text \<open>
  \<open>runCurrentCode\<close> evaluates the code buffer; what it returns is an input of the
  handler. The request carries \<open>output || 'Code executed successfully (no output).'\<close>.
\<close>

definition resultAction :: "nat \<Rightarrow> string \<Rightarrow> string \<Rightarrow> action" where
  "resultAction now stamp out =
     (new_action (''exec_result_'' @ decimal now) Exec_result Done stamp)\<lparr>exec_output := Some out\<rparr>"

definition accept_begin ::
  "string \<Rightarrow> app_state \<Rightarrow> (app_state \<times> action \<times> string \<times> request) option" where
  "accept_begin out s =
     (case pendingExecRequest (registry s) of
        None \<Rightarrow> None
      | Some p \<Rightarrow>
          (case active_task s of
             None \<Rightarrow> None
           | Some t \<Rightarrow>
               Some (s\<lparr>executingCode := True, executionAction := Some Accept\<rparr>, p, t,
                     Complete_tool (userId s) t (action_id p)
                       (JStr (if out = [] then ''Code executed successfully (no output).''
                              else out)))))"

definition accept_settle ::
  "nat \<Rightarrow> string \<Rightarrow> string \<Rightarrow> action \<Rightarrow> string \<Rightarrow> unit fetch_outcome \<Rightarrow> app_state \<Rightarrow> app_state" where
  "accept_settle now stamp out p t res s =
     (let s1 = complete_tool_settle res s;
          ra = resultAction now stamp out;
          r1 = updateAction t (action_id ra) (\<lambda>prev. ra) (registry s1);
          r2 = updateAction t (action_id p) (status_updater Done) r1
      in s1\<lparr>registry := r2, executingCode := False, executionAction := None\<rparr>)"

definition handleAcceptExecution ::
  "nat \<Rightarrow> string \<Rightarrow> string \<Rightarrow> unit fetch_outcome \<Rightarrow> app_state \<Rightarrow> app_state \<times> request list" where
  "handleAcceptExecution now stamp out res s =
     (case accept_begin out s of
        None \<Rightarrow> (s, [])
      | Some (s1, p, t, req) \<Rightarrow> (accept_settle now stamp out p t res s1, [req]))"

section \<open>Example sessions\<close>

text \<open>
  A session that has done nothing yet, and the session after the prompt
  \<open>sort this array\<close> was enqueued as task \<open>t1\<close>.
\<close>

definition idle_session :: app_state where
  "idle_session =
     \<lparr>registry = \<lparr>runs = Map.empty, runOrder = []\<rparr>, userId = ''user_a'',
      code = ''return 1;'', proposedCode = None, input = [], loading = False,
      currentTaskId = None, cancelling = False, executingCode = False,
      executionAction = None\<rparr>"

definition working_session :: app_state where
  "working_session =
     snd (sendPrompt_settle 2 ''09:00:01'' ''sort this array'' (Response_ok ''t1'')
            (idle_session\<lparr>loading := True\<rparr>))"

definition tool_event :: "string \<Rightarrow> string \<Rightarrow> event_data \<Rightarrow> agent_event" where
  "tool_event ty t d =
     \<lparr>event_type = ty, task_id = t, event_timestamp = ''09:00:02'', data = d, event_error = None\<rparr>"

definition think_call :: "string \<Rightarrow> tool_call" where
  "think_call i = \<lparr>tc_id = i, tc_function = \<lparr>fn_name = ''think'', fn_arguments = None\<rparr>\<rparr>"

definition think_started :: agent_event where
  "think_started =
     tool_event ''progress_update_tool_action_started'' ''t1'' (Data_args [think_call ''c1''])"

definition think_completed :: "string \<Rightarrow> agent_event" where
  "think_completed i =
     tool_event ''progress_update_tool_action_completed'' ''t1''
       (Data_result \<lparr>tool_call = Some (think_call i), output_data = Some (JStr ''plan'')\<rparr>)"

definition exec_call :: "string \<Rightarrow> tool_call" where
  "exec_call i =
     \<lparr>tc_id = i,
      tc_function = \<lparr>fn_name = ''request_code_execution'',
                     fn_arguments = Some (JObj [(''response_on_reject'', JStr ''declined'')])\<rparr>\<rparr>"

definition exec_started :: agent_event where
  "exec_started =
     tool_event ''progress_update_tool_action_started'' ''t1'' (Data_args [exec_call ''c1''])"

definition exec_completed :: agent_event where
  "exec_completed =
     tool_event ''progress_update_tool_action_completed'' ''t1''
       (Data_result \<lparr>tool_call = Some (exec_call ''c1''), output_data = Some (JStr ''ok'')\<rparr>)"

definition answer_event :: agent_event where
  "answer_event = tool_event ''agent_output'' ''t1'' (Data_value (JStr ''sorted''))"

definition failure_event :: agent_event where
  "failure_event = tool_event ''run_failed'' ''t1'' (Data_value JNull)"

definition exec_request_action :: "string \<Rightarrow> action_status \<Rightarrow> action" where
  "exec_request_action i st =
     (new_action i Exec_request st ''09:00:02'')\<lparr>responseOnReject := Some (JStr ''declined'')\<rparr>"

text \<open>Two runs whose execution requests are done, running and running, in timeline order.\<close>

definition two_run_registry :: registry where
  "two_run_registry =
     \<lparr>runs = [''t1'' \<mapsto> \<lparr>taskId = ''t1'', prompt = ''first'',
                          actions = [exec_request_action ''c1'' Done,
                                     exec_request_action ''c2'' Running]\<rparr>,
              ''t2'' \<mapsto> \<lparr>taskId = ''t2'', prompt = ''second'',
                          actions = [exec_request_action ''c3'' Running]\<rparr>],
      runOrder = [''t1'', ''t2'']\<rparr>"

text \<open>
  Task \<open>t1\<close> asks for a code execution (\<open>c1\<close>) and then fails on the server while the
  request still waits for the user; the user submits \<open>try again\<close>, enqueued as \<open>t2\<close>.
\<close>

definition stale_request_session :: app_state where
  "stale_request_session =
     fst (snd (sendPrompt 6 ''09:00:04'' (Response_ok ''t2'')
       ((handleWSMessage 5 failure_event (handleWSMessage 3 exec_started working_session))
          \<lparr>input := ''try again''\<rparr>)))"

section \<open>Evaluation lemmas\<close>

lemmas fixture_defs = idle_session_def working_session_def tool_event_def think_call_def
  think_started_def think_completed_def exec_call_def exec_started_def exec_completed_def
  answer_event_def failure_event_def exec_request_action_def two_run_registry_def

lemmas model_defs = handleWSMessage_def tool_completed_def addAction_def updateAction_def
  createRun_def sendPrompt_settle_def run_actions_def new_action_def userAction_def
  startAction_def completed_updater_def thoughtAction_def answerAction_def fail_notice_def
  Let_def

lemma decimal_small:
  "decimal 2 = ''2''" "decimal 3 = ''3''" "decimal 4 = ''4''" "decimal 5 = ''5''"
  "decimal 6 = ''6''" "decimal 7 = ''7''"
  by code_simp+

lemma trim_examples:
  "trim ''sort this array'' = ''sort this array''" "trim ''try again'' = ''try again''"
  by (simp_all add: trim_def js_whitespace_def)

lemma working_session_eval:
  "working_session =
     idle_session\<lparr>registry :=
         \<lparr>runs = [''t1'' \<mapsto> \<lparr>taskId = ''t1'', prompt = ''sort this array'',
                              actions = [userAction 2 ''09:00:01'' ''sort this array'']\<rparr>],
          runOrder = [''t1'']\<rparr>,
       loading := True, currentTaskId := Some ''t1''\<rparr>"
  by (simp add: working_session_def idle_session_def sendPrompt_settle_def createRun_def
      addAction_def)

text \<open>The working session is what a successful \<open>sendPrompt\<close> leaves.\<close>

lemma working_session_reached:
  "sendPrompt 2 ''09:00:01'' (Response_ok ''t1'') (idle_session\<lparr>input := ''sort this array''\<rparr>) =
     (Resolved, working_session, [Enqueue ''user_a'' ''sort this array'' (JStr ''return 1;'') []])"
  by (simp add: sendPrompt_def sendPrompt_begin_def trim_examples message_history_def
      working_session_def idle_session_def sendPrompt_settle_def)

lemma stale_registry:
  "registry stale_request_session =
     \<lparr>runs = [''t1'' \<mapsto> \<lparr>taskId = ''t1'', prompt = ''sort this array'',
                          actions = [userAction 2 ''09:00:01'' ''sort this array'',
                                     exec_request_action ''c1'' Running,
                                     fail_notice 5 failure_event]\<rparr>,
              ''t2'' \<mapsto> \<lparr>taskId = ''t2'', prompt = ''try again'',
                          actions = [userAction 6 ''09:00:04'' ''try again'']\<rparr>],
      runOrder = [''t1'', ''t2'']\<rparr>"
  by (simp add: stale_request_session_def sendPrompt_def sendPrompt_begin_def trim_examples
      fixture_defs model_defs)

lemma stale_flags:
  "currentTaskId stale_request_session = Some ''t2''"
  "executingCode stale_request_session = False"
  by (simp_all add: stale_request_session_def sendPrompt_def sendPrompt_begin_def trim_examples
      fixture_defs model_defs)

lemma stale_pending:
  "pendingExecRequest (registry stale_request_session) = Some (exec_request_action ''c1'' Running)"
  by (simp add: stale_registry pendingExecRequest_def timelineActions_def run_actions_def
      is_pending_def exec_request_action_def new_action_def userAction_def fail_notice_def)

section \<open>The store: appending and upserting\<close>

lemma upsert_absent:
  "i \<notin> set (map action_id as) \<Longrightarrow> upsert i f as = as @ [f None]"
  by (induction as) auto

lemma upsert_present:
  "i \<notin> set (map action_id pre) \<Longrightarrow> action_id a = i \<Longrightarrow>
   upsert i f (pre @ a # post) = pre @ f (Some a) # post"
  by (induction pre) auto

lemma upsert_length:
  "length (upsert i f as) = (if i \<in> set (map action_id as) then length as else Suc (length as))"
  by (induction as) auto

lemma run_actions_addAction:
  "runs reg t = Some r \<Longrightarrow> run_actions (addAction t a reg) t = actions r @ [a]"
  by (simp add: run_actions_def addAction_def)

lemma run_actions_updateAction:
  "runs reg t = Some r \<Longrightarrow> run_actions (updateAction t i f reg) t = upsert i f (actions r)"
  by (simp add: run_actions_def updateAction_def)

lemma runs_updateAction_same:
  "runs reg t = Some r \<Longrightarrow>
   runs (updateAction t i f reg) t = Some (r\<lparr>actions := upsert i f (actions r)\<rparr>)"
  by (simp add: updateAction_def)

lemma runs_addAction_other: "t' \<noteq> t \<Longrightarrow> runs (addAction t a reg) t' = runs reg t'"
  by (simp add: addAction_def split: option.split)

lemma runs_updateAction_other: "t' \<noteq> t \<Longrightarrow> runs (updateAction t i f reg) t' = runs reg t'"
  by (simp add: updateAction_def split: option.split)

lemma runOrder_addAction: "runOrder (addAction t a reg) = runOrder reg"
  by (simp add: addAction_def split: option.split)

lemma addAction_unknown: "runs reg t = None \<Longrightarrow> addAction t a reg = reg"
  by (simp add: addAction_def)

section \<open>The reducer, one event type at a time\<close>

lemma handleWSMessage_completed:
  assumes "event_type e = ''progress_update_tool_action_completed''"
    and "data_result (data e) = Some resp" and "tool_call resp = Some tc"
  shows "handleWSMessage now e s = tool_completed now e resp tc s"
  using assms by (simp add: handleWSMessage_def)

lemma handleWSMessage_agent_output:
  assumes "event_type e = ''agent_output''"
  shows "handleWSMessage now e s =
     s\<lparr>registry := addAction (task_id e) (answerAction now e) (registry s),
          loading := False, currentTaskId := None\<rparr>"
  using assms by (simp add: handleWSMessage_def)

lemma handleWSMessage_run_failed:
  assumes "event_type e = ''run_failed''"
  shows "handleWSMessage now e s =
     s\<lparr>registry := addAction (task_id e) (fail_notice now e) (registry s),
          loading := False, cancelling := False, currentTaskId := None\<rparr>"
  using assms by (simp add: handleWSMessage_def)

section \<open>Completed tool calls\<close>

text \<open>
  Claim C1, as amended. Take a \<open>tool_action_completed\<close> event whose payload carries a
  tool-call descriptor for a tool other than \<open>request_code_execution\<close>, for a task that
  has a run. If no action of the run has the tool-call id, the run gains at its end one
  \<open>tool_completed\<close> action with that id, status done, the tool name and the event's
  output. If one has, the first such action is replaced in place by its merge with kind
  \<open>tool_completed\<close>, status done and the output. In both cases, when the tool is
  \<open>think\<close> and its output is a string, one \<open>assistant_thought\<close> action carrying that
  string is appended after it; otherwise nothing else is added. No started event is
  needed for the first case.
\<close>

theorem tool_completed_upserts_record:
  assumes et: "event_type e = ''progress_update_tool_action_completed''"
    and dr: "data_result (data e) = Some resp"
    and tc: "tool_call resp = Some tc"
    and nm: "fn_name (tc_function tc) \<noteq> ''request_code_execution''"
    and rn: "runs (registry s) (task_id e) = Some r"
  shows "(Some (tc_id tc) \<notin> set (map action_id (actions r)) \<longrightarrow>
            run_actions (registry (handleWSMessage now e s)) (task_id e) =
              actions r @
              [(new_action (tc_id tc) Tool_completed Done (event_timestamp e))
                 \<lparr>toolName := Some (fn_name (tc_function tc)), result := output_data resp\<rparr>] @
              (if fn_name (tc_function tc) = ''think'' \<and> is_string (output_data resp)
               then [thoughtAction now e (the (output_data resp))] else []))
       \<and> (\<forall>pre a post.
             actions r = pre @ a # post \<and> Some (tc_id tc) \<notin> set (map action_id pre) \<and>
             action_id a = Some (tc_id tc) \<longrightarrow>
             run_actions (registry (handleWSMessage now e s)) (task_id e) =
               pre @ a\<lparr>kind := Some Tool_completed, status := Done, result := output_data resp\<rparr> #
               post @
               (if fn_name (tc_function tc) = ''think'' \<and> is_string (output_data resp)
                then [thoughtAction now e (the (output_data resp))] else []))"
proof -
  let ?f = "completed_updater e tc (output_data resp)"
  let ?th = "if fn_name (tc_function tc) = ''think'' \<and> is_string (output_data resp)
             then [thoughtAction now e (the (output_data resp))] else []"
  have step: "run_actions (registry (handleWSMessage now e s)) (task_id e) =
                upsert (Some (tc_id tc)) ?f (actions r) @ ?th"
    using nm rn
    by (simp add: handleWSMessage_completed [OF et dr tc] tool_completed_def Let_def
        run_actions_addAction run_actions_updateAction runs_updateAction_same)
  have fresh: "?f None =
      (new_action (tc_id tc) Tool_completed Done (event_timestamp e))
         \<lparr>toolName := Some (fn_name (tc_function tc)), result := output_data resp\<rparr>"
    by (simp add: completed_updater_def new_action_def)
  have merged: "?f (Some a) =
      a\<lparr>kind := Some Tool_completed, status := Done, result := output_data resp\<rparr>" for a
    by (simp add: completed_updater_def)
  show ?thesis
    by (simp add: step upsert_absent upsert_present fresh merged)
qed

text \<open>
  The theorem at two sessions: the completed event of \<open>think\<close> call \<open>c1\<close> as the first
  observation of \<open>c1\<close>, and after its started event.
\<close>

theorem tool_completed_upserts_record_witness:
  "event_type (think_completed ''c1'') = ''progress_update_tool_action_completed'' \<and>
   fn_name (tc_function (think_call ''c1'')) \<noteq> ''request_code_execution'' \<and>
   run_actions (registry working_session) ''t1'' =
     [userAction 2 ''09:00:01'' ''sort this array''] \<and>
   run_actions (registry (handleWSMessage 4 (think_completed ''c1'') working_session)) ''t1'' =
     [userAction 2 ''09:00:01'' ''sort this array'',
      (new_action ''c1'' Tool_completed Done ''09:00:02'')
        \<lparr>toolName := Some ''think'', result := Some (JStr ''plan'')\<rparr>,
      (new_action ''thought_4'' Assistant_thought Done ''09:00:02'')
        \<lparr>content := Some (JStr ''plan'')\<rparr>] \<and>
   run_actions (registry (handleWSMessage 3 think_started working_session)) ''t1'' =
     [userAction 2 ''09:00:01'' ''sort this array'',
      (new_action ''c1'' Tool_started Running ''09:00:02'')\<lparr>toolName := Some ''think''\<rparr>] \<and>
   run_actions (registry (handleWSMessage 4 (think_completed ''c1'')
       (handleWSMessage 3 think_started working_session))) ''t1'' =
     [userAction 2 ''09:00:01'' ''sort this array'',
      (new_action ''c1'' Tool_completed Done ''09:00:02'')
        \<lparr>toolName := Some ''think'', result := Some (JStr ''plan'')\<rparr>,
      (new_action ''thought_4'' Assistant_thought Done ''09:00:02'')
        \<lparr>content := Some (JStr ''plan'')\<rparr>]"
proof -
  let ?resp = "\<lparr>tool_call = Some (think_call ''c1''), output_data = Some (JStr ''plan'')\<rparr>"
  let ?user = "userAction 2 ''09:00:01'' ''sort this array''"
  let ?started = "(new_action ''c1'' Tool_started Running ''09:00:02'')\<lparr>toolName := Some ''think''\<rparr>"
  have h1: "event_type (think_completed ''c1'') = ''progress_update_tool_action_completed''"
    by (simp add: think_completed_def tool_event_def)
  have h2: "data_result (data (think_completed ''c1'')) = Some ?resp"
    by (simp add: think_completed_def tool_event_def)
  have h3: "tool_call ?resp = Some (think_call ''c1'')"
    by simp
  have h4: "fn_name (tc_function (think_call ''c1'')) \<noteq> ''request_code_execution''"
    by (simp add: think_call_def)
  have t: "task_id (think_completed ''c1'') = ''t1''"
    "event_timestamp (think_completed ''c1'') = ''09:00:02''"
    by (simp_all add: think_completed_def tool_event_def)
  have r1: "runs (registry working_session) (task_id (think_completed ''c1'')) =
      Some \<lparr>taskId = ''t1'', prompt = ''sort this array'', actions = [?user]\<rparr>"
    by (simp add: working_session_eval t)
  have r2: "runs (registry (handleWSMessage 3 think_started working_session))
              (task_id (think_completed ''c1'')) =
      Some \<lparr>taskId = ''t1'', prompt = ''sort this array'', actions = [?user, ?started]\<rparr>"
    by (simp add: working_session_eval t think_started_def tool_event_def think_call_def
        handleWSMessage_def addAction_def startAction_def new_action_def)
  have ids: "action_id ?user = Some ''user_2''" "action_id ?started = Some ''c1''"
    by (simp_all add: userAction_def new_action_def decimal_small)
  have first: "run_actions (registry (handleWSMessage 4 (think_completed ''c1'') working_session)) ''t1'' =
     [?user,
      (new_action ''c1'' Tool_completed Done ''09:00:02'')
        \<lparr>toolName := Some ''think'', result := Some (JStr ''plan'')\<rparr>,
      (new_action ''thought_4'' Assistant_thought Done ''09:00:02'')
        \<lparr>content := Some (JStr ''plan'')\<rparr>]"
    using tool_completed_upserts_record [OF h1 h2 h3 h4 r1, of 4]
    by (simp add: t ids think_call_def thoughtAction_def decimal_small)
  note present = tool_completed_upserts_record [OF h1 h2 h3 h4 r2, of 4, THEN conjunct2,
      rule_format, where pre = "[?user]" and a = ?started and post = "[]"]
  have second: "run_actions (registry (handleWSMessage 4 (think_completed ''c1'')
       (handleWSMessage 3 think_started working_session))) ''t1'' =
     [?user,
      ?started\<lparr>kind := Some Tool_completed, status := Done, result := Some (JStr ''plan'')\<rparr>,
      (new_action ''thought_4'' Assistant_thought Done ''09:00:02'')
        \<lparr>content := Some (JStr ''plan'')\<rparr>]"
    using present ids
    by (simp add: t think_call_def thoughtAction_def decimal_small)
  have merged: "?started\<lparr>kind := Some Tool_completed, status := Done, result := Some (JStr ''plan'')\<rparr> =
      (new_action ''c1'' Tool_completed Done ''09:00:02'')
        \<lparr>toolName := Some ''think'', result := Some (JStr ''plan'')\<rparr>"
    by (simp add: new_action_def)
  show ?thesis
    using h1 h4 r1 r2 first second
    by (simp add: run_actions_def t merged)
qed

text \<open>
  Claim C1 as stated fails: the run already holds the started action of \<open>think\<close> call
  \<open>c1\<close>, the completed event for \<open>c1\<close> arrives with a string output, and the run's
  action sequence does not keep its length.
\<close>

theorem tool_completed_think_grows_run:
  "event_type (think_completed ''c1'') = ''progress_update_tool_action_completed'' \<and>
   data_result (data (think_completed ''c1'')) =
     Some \<lparr>tool_call = Some (think_call ''c1''), output_data = Some (JStr ''plan'')\<rparr> \<and>
   fn_name (tc_function (think_call ''c1'')) \<noteq> ''request_code_execution'' \<and>
   Some ''c1'' \<in> set (map action_id
      (run_actions (registry (handleWSMessage 3 think_started working_session)) ''t1'')) \<and>
   length (run_actions (registry (handleWSMessage 4 (think_completed ''c1'')
          (handleWSMessage 3 think_started working_session))) ''t1'')
     \<noteq> length (run_actions (registry (handleWSMessage 3 think_started working_session)) ''t1'')"
  by (simp add: fixture_defs model_defs)

section \<open>The pending execution request\<close>

lemma find_rev_last:
  "find P (rev xs) = (if filter P xs = [] then None else Some (last (filter P xs)))"
proof (induction xs rule: rev_induct)
  case Nil
  show ?case by simp
next
  case (snoc x xs)
  show ?case
  proof (cases "P x")
    case True
    then show ?thesis by simp
  next
    case False
    with snoc show ?thesis by simp
  qed
qed

text \<open>
  Claim C3. For every registry, the pending execution request that the application
  derives (a search from the end of the flattened timeline, runs in creation order and
  each run's actions in their own order) is the last action of that timeline that is a
  running \<open>exec_request\<close>, and none when there is no such action. With execution requests
  done, running, running across two runs it is the third, not the first running one.
\<close>

theorem pendingExecRequest_is_latest_running:
  "pendingExecRequest reg = latest_running_exec_request reg \<and>
   pendingExecRequest two_run_registry = Some (exec_request_action ''c3'' Running)"
proof
  show "pendingExecRequest reg = latest_running_exec_request reg"
    by (simp add: pendingExecRequest_def latest_running_exec_request_def find_rev_last Let_def)
  show "pendingExecRequest two_run_registry = Some (exec_request_action ''c3'' Running)"
    by (simp add: pendingExecRequest_def timelineActions_def run_actions_def is_pending_def
        two_run_registry_def exec_request_action_def new_action_def)
qed

text \<open>
  Claim C4. A \<open>tool_action_completed\<close> event whose tool-call descriptor names
  \<open>request_code_execution\<close> is suppressed: processing it adds no action and changes no
  action of any run; the whole session state stays as it was.
\<close>

theorem exec_request_completion_suppressed:
  assumes "event_type e = ''progress_update_tool_action_completed''"
    and "data_result (data e) = Some resp" and "tool_call resp = Some tc"
    and "fn_name (tc_function tc) = ''request_code_execution''"
  shows "handleWSMessage now e s = s"
  using assms by (simp add: handleWSMessage_completed tool_completed_def)

text \<open>The theorem after the started event of execution request \<open>c1\<close>.\<close>

theorem exec_request_completion_suppressed_witness:
  "event_type exec_completed = ''progress_update_tool_action_completed'' \<and>
   data_result (data exec_completed) =
     Some \<lparr>tool_call = Some (exec_call ''c1''), output_data = Some (JStr ''ok'')\<rparr> \<and>
   fn_name (tc_function (exec_call ''c1'')) = ''request_code_execution'' \<and>
   handleWSMessage 4 exec_completed (handleWSMessage 3 exec_started working_session) =
     handleWSMessage 3 exec_started working_session"
proof -
  have h1: "event_type exec_completed = ''progress_update_tool_action_completed''"
    by (simp add: exec_completed_def tool_event_def)
  have h2: "data_result (data exec_completed) =
     Some \<lparr>tool_call = Some (exec_call ''c1''), output_data = Some (JStr ''ok'')\<rparr>"
    by (simp add: exec_completed_def tool_event_def)
  have h3: "tool_call \<lparr>tool_call = Some (exec_call ''c1''), output_data = Some (JStr ''ok'')\<rparr>
            = Some (exec_call ''c1'')"
    by simp
  have h4: "fn_name (tc_function (exec_call ''c1'')) = ''request_code_execution''"
    by (simp add: exec_call_def)
  show ?thesis
    using h1 h2 h4
      exec_request_completion_suppressed [OF h1 h2 h3 h4, of 4
        "handleWSMessage 3 exec_started working_session"]
    by simp
qed

section \<open>Terminal events\<close>

text \<open>
  Claim C5, as amended. Processing an \<open>agent_output\<close> event always leaves the loading
  flag false and the active-task pointer null, whatever they were. When the registry
  holds a run for the event's task, that run gains at its end exactly one \<open>final_answer\<close>
  action whose identifier is made from the clock, with status done and the event payload
  as content, and every other run and the run order stay as they were. When it holds no
  run for the task, the registry is unchanged.
\<close>

theorem agent_output_inserts_final_answer:
  assumes et: "event_type e = ''agent_output''"
  shows "loading (handleWSMessage now e s) = False \<and>
         currentTaskId (handleWSMessage now e s) = None \<and>
         (\<forall>r. runs (registry s) (task_id e) = Some r \<longrightarrow>
            run_actions (registry (handleWSMessage now e s)) (task_id e) =
              actions r @
              [(new_action (''answer_'' @ decimal now) Final_answer Done (event_timestamp e))
                 \<lparr>content := Some (json_of_data (data e))\<rparr>]) \<and>
         (\<forall>t. t \<noteq> task_id e \<longrightarrow>
            runs (registry (handleWSMessage now e s)) t = runs (registry s) t) \<and>
         runOrder (registry (handleWSMessage now e s)) = runOrder (registry s) \<and>
         (runs (registry s) (task_id e) = None \<longrightarrow>
            registry (handleWSMessage now e s) = registry s)"
  by (simp add: handleWSMessage_agent_output [OF et] run_actions_addAction runs_addAction_other
      runOrder_addAction addAction_unknown answerAction_def)

text \<open>The theorem at the working session, whose flags are set.\<close>

theorem agent_output_inserts_final_answer_witness:
  "event_type answer_event = ''agent_output'' \<and>
   loading working_session \<and> currentTaskId working_session = Some ''t1'' \<and>
   loading (handleWSMessage 5 answer_event working_session) = False \<and>
   currentTaskId (handleWSMessage 5 answer_event working_session) = None \<and>
   run_actions (registry (handleWSMessage 5 answer_event working_session)) ''t1'' =
     [userAction 2 ''09:00:01'' ''sort this array'',
      (new_action ''answer_5'' Final_answer Done ''09:00:02'')\<lparr>content := Some (JStr ''sorted'')\<rparr>]"
proof -
  have h: "event_type answer_event = ''agent_output''"
    by (simp add: answer_event_def tool_event_def)
  have r: "runs (registry working_session) ''t1'' =
     Some \<lparr>taskId = ''t1'', prompt = ''sort this array'',
           actions = [userAction 2 ''09:00:01'' ''sort this array'']\<rparr>"
    by (simp add: working_session_eval)
  have t: "task_id answer_event = ''t1''" "event_timestamp answer_event = ''09:00:02''"
    "data answer_event = Data_value (JStr ''sorted'')"
    by (simp_all add: answer_event_def tool_event_def)
  show ?thesis
    using h r agent_output_inserts_final_answer [OF h, of 5 working_session]
    by (simp add: t decimal_small working_session_eval)
qed

text \<open>
  Claim C5 as stated fails: in a session whose registry holds no run for task \<open>t1\<close>, an
  \<open>agent_output\<close> event for \<open>t1\<close> inserts no action at all.
\<close>

theorem agent_output_unknown_task_inserts_nothing:
  "event_type answer_event = ''agent_output'' \<and>
   registry (handleWSMessage 5 answer_event idle_session) = registry idle_session \<and>
   timelineActions (registry (handleWSMessage 5 answer_event idle_session)) = []"
  by (simp add: answer_event_def tool_event_def handleWSMessage_def idle_session_def
      addAction_def timelineActions_def)

text \<open>
  Claim C6. Processing a \<open>run_failed\<close> event for a task clears the loading flag, the
  cancelling flag and the active-task pointer, and the run of that task gains at its end
  a \<open>system_notice\<close> action with status done whose message is exactly
  \<open>Failed to get agent response.\<close>
\<close>

theorem run_failed_adds_notice:
  assumes et: "event_type e = ''run_failed''"
  shows "(\<forall>r. runs (registry s) (task_id e) = Some r \<longrightarrow>
            run_actions (registry (handleWSMessage now e s)) (task_id e) =
              actions r @
              [(new_action (''fail_'' @ decimal now) System_notice Done (event_timestamp e))
                 \<lparr>message := Some (JStr ''Failed to get agent response.'')\<rparr>]) \<and>
         loading (handleWSMessage now e s) = False \<and>
         cancelling (handleWSMessage now e s) = False \<and>
         currentTaskId (handleWSMessage now e s) = None"
  by (simp add: handleWSMessage_run_failed [OF et] run_actions_addAction fail_notice_def)

text \<open>The theorem at the working session while a cancellation is in flight.\<close>

theorem run_failed_adds_notice_witness:
  "event_type failure_event = ''run_failed'' \<and>
   run_actions (registry (handleWSMessage 5 failure_event (working_session\<lparr>cancelling := True\<rparr>))) ''t1'' =
     [userAction 2 ''09:00:01'' ''sort this array'',
      (new_action ''fail_5'' System_notice Done ''09:00:02'')
        \<lparr>message := Some (JStr ''Failed to get agent response.'')\<rparr>] \<and>
   loading (handleWSMessage 5 failure_event (working_session\<lparr>cancelling := True\<rparr>)) = False \<and>
   cancelling (handleWSMessage 5 failure_event (working_session\<lparr>cancelling := True\<rparr>)) = False \<and>
   currentTaskId (handleWSMessage 5 failure_event (working_session\<lparr>cancelling := True\<rparr>)) = None"
proof -
  have h: "event_type failure_event = ''run_failed''"
    by (simp add: failure_event_def tool_event_def)
  have t: "task_id failure_event = ''t1''" "event_timestamp failure_event = ''09:00:02''"
    by (simp_all add: failure_event_def tool_event_def)
  have r: "runs (registry (working_session\<lparr>cancelling := True\<rparr>)) (task_id failure_event) =
     Some \<lparr>taskId = ''t1'', prompt = ''sort this array'',
           actions = [userAction 2 ''09:00:01'' ''sort this array'']\<rparr>"
    by (simp add: working_session_eval t)
  show ?thesis
    using h r run_failed_adds_notice [OF h, of "working_session\<lparr>cancelling := True\<rparr>" 5]
    by (simp add: t decimal_small)
qed

section \<open>Submitting a prompt\<close>

text \<open>What a response without \<open>ok\<close> leaves: the loading flag is cleared again.\<close>

lemma sendPrompt_not_ok:
  "trim (input s) \<noteq> [] \<Longrightarrow>
   sendPrompt now stamp Response_not_ok s =
     (Resolved, s\<lparr>loading := False, input := []\<rparr>,
      [Enqueue (userId s) (input s)
         (case proposedCode s of None \<Rightarrow> JStr (code s) | Some c \<Rightarrow> c)
         (message_history (registry s))])"
  by (simp add: sendPrompt_def sendPrompt_begin_def sendPrompt_settle_def)

text \<open>
  Claim C2 says that after a failed enqueue request, a transport error included, the
  loading flag is cleared, no run and no \<open>user_message\<close> exist and the active-task
  pointer is as before. At the idle session with the input \<open>sort this array\<close> and a
  \<open>fetch\<close> that rejects, \<open>sendPrompt\<close> ends by rejecting and the loading flag is still
  set: the awaited \<open>fetch\<close> is outside any \<open>try\<close>, so nothing after it runs.
\<close>

theorem sendPrompt_rejected_fetch_keeps_loading:
  "trim (input (idle_session\<lparr>input := ''sort this array''\<rparr>)) \<noteq> [] \<and>
   sendPrompt 2 ''09:00:01'' Fetch_rejected (idle_session\<lparr>input := ''sort this array''\<rparr>) =
     (Rejected, idle_session\<lparr>loading := True\<rparr>,
      [Enqueue ''user_a'' ''sort this array'' (JStr ''return 1;'') []]) \<and>
   loading (fst (snd (sendPrompt 2 ''09:00:01'' Fetch_rejected
                        (idle_session\<lparr>input := ''sort this array''\<rparr>)))) = True"
  by (simp add: trim_examples sendPrompt_def sendPrompt_begin_def sendPrompt_settle_def
      message_history_def idle_session_def)

text \<open>
  Claim C10. For a non-blank input, \<open>sendPrompt\<close> empties the input buffer in the step
  that issues the enqueue request, which carries the text. Neither failure branch writes
  the buffer: after a response without \<open>ok\<close> and after a rejected \<open>fetch\<close> it is still
  empty (and stays whatever it has become in between), while the registry is as it was,
  so the text is gone and no run was created.
\<close>

theorem sendPrompt_discards_input:
  assumes nb: "trim (input s) \<noteq> []"
  shows "sendPrompt_begin s =
           Some (s\<lparr>loading := True, input := []\<rparr>,
                 Enqueue (userId s) (input s)
                   (case proposedCode s of None \<Rightarrow> JStr (code s) | Some c \<Rightarrow> c)
                   (message_history (registry s))) \<and>
         input (fst (snd (sendPrompt now stamp Response_not_ok s))) = [] \<and>
         input (fst (snd (sendPrompt now stamp Fetch_rejected s))) = [] \<and>
         registry (fst (snd (sendPrompt now stamp Response_not_ok s))) = registry s \<and>
         registry (fst (snd (sendPrompt now stamp Fetch_rejected s))) = registry s \<and>
         input (snd (sendPrompt_settle now stamp txt Response_not_ok s')) = input s' \<and>
         input (snd (sendPrompt_settle now stamp txt Fetch_rejected s')) = input s'"
  using nb by (simp add: sendPrompt_def sendPrompt_begin_def sendPrompt_settle_def)

text \<open>The theorem at the idle session with the input \<open>sort this array\<close>.\<close>

theorem sendPrompt_discards_input_witness:
  "trim (input (idle_session\<lparr>input := ''sort this array''\<rparr>)) \<noteq> [] \<and>
   sendPrompt 2 ''09:00:01'' Response_not_ok (idle_session\<lparr>input := ''sort this array''\<rparr>) =
     (Resolved, idle_session,
      [Enqueue ''user_a'' ''sort this array'' (JStr ''return 1;'') []]) \<and>
   input (fst (snd (sendPrompt 2 ''09:00:01'' Fetch_rejected
                      (idle_session\<lparr>input := ''sort this array''\<rparr>)))) = []"
proof -
  have h: "trim (input (idle_session\<lparr>input := ''sort this array''\<rparr>)) \<noteq> []"
    by (simp add: trim_examples)
  have m: "message_history (registry idle_session) = []"
    by (simp add: message_history_def idle_session_def)
  show ?thesis
    using h sendPrompt_discards_input [OF h, of 2 "''09:00:01''" "''sort this array''" idle_session]
    by (simp add: sendPrompt_def sendPrompt_settle_def m)
       (simp add: idle_session_def)
qed

section \<open>Cancelling the active task\<close>

text \<open>
  Claim C8. \<open>cancelCurrentTask\<close> changes nothing and issues no request when the task
  pointer is not set or a cancellation is in flight. Otherwise its first step sets the
  cancelling flag and issues the cancel request for the active task from that state;
  when the request has settled, a response without \<open>ok\<close> and a rejected \<open>fetch\<close> clear
  the flag, and a response with \<open>ok\<close> leaves the state as it is, the flag still set.
\<close>

theorem cancelCurrentTask_guard_and_flag:
  "(active_task s = None \<or> cancelling s \<longrightarrow>
      cancel_begin s = None \<and> cancelCurrentTask res s = (s, [])) \<and>
   (active_task s = Some t \<and> \<not> cancelling s \<longrightarrow>
      cancel_begin s = Some (s\<lparr>cancelling := True\<rparr>, Cancel (userId s) t) \<and>
      cancelCurrentTask (Response_ok ()) s = (s\<lparr>cancelling := True\<rparr>, [Cancel (userId s) t]) \<and>
      cancelCurrentTask Response_not_ok s = (s\<lparr>cancelling := False\<rparr>, [Cancel (userId s) t]) \<and>
      cancelCurrentTask Fetch_rejected s = (s\<lparr>cancelling := False\<rparr>, [Cancel (userId s) t])) \<and>
   cancel_settle (Response_ok ()) s' = s' \<and>
   cancel_settle Response_not_ok s' = s'\<lparr>cancelling := False\<rparr> \<and>
   cancel_settle Fetch_rejected s' = s'\<lparr>cancelling := False\<rparr>"
  by (auto simp add: cancelCurrentTask_def cancel_begin_def cancel_settle_def
      split: option.splits)

text \<open>The theorem at the idle session (no active task) and at the working session.\<close>

theorem cancelCurrentTask_guard_and_flag_witness:
  "active_task idle_session = None \<and>
   cancelCurrentTask Fetch_rejected idle_session = (idle_session, []) \<and>
   active_task working_session = Some ''t1'' \<and> \<not> cancelling working_session \<and>
   cancelCurrentTask Fetch_rejected working_session =
     (working_session\<lparr>cancelling := False\<rparr>, [Cancel ''user_a'' ''t1'']) \<and>
   cancelCurrentTask (Response_ok ()) working_session =
     (working_session\<lparr>cancelling := True\<rparr>, [Cancel ''user_a'' ''t1''])"
proof -
  have a: "active_task idle_session = None"
    by (simp add: active_task_def idle_session_def)
  have b: "active_task working_session = Some ''t1''" "\<not> cancelling working_session"
    "userId working_session = ''user_a''"
    by (simp_all add: active_task_def working_session_eval idle_session_def)
  show ?thesis
    using a b
      cancelCurrentTask_guard_and_flag [of idle_session Fetch_rejected "''t1''" idle_session]
      cancelCurrentTask_guard_and_flag [of working_session Fetch_rejected "''t1''" idle_session]
    by simp
qed

section \<open>Resolving an execution request\<close>

text \<open>
  What the awaited request gave back does not enter the state that either handler
  leaves: the \<open>try\<close> around it only logs.
\<close>

lemma complete_tool_settle_logs_only: "complete_tool_settle res s = s"
  by (cases res) (simp_all add: complete_tool_settle_def)

lemma handleRejectExecution_ignores_outcome:
  "handleRejectExecution now stamp res s = handleRejectExecution now stamp (Response_ok ()) s"
  by (simp add: handleRejectExecution_def reject_settle_def complete_tool_settle_logs_only
      split: option.split prod.split)

lemma handleAcceptExecution_ignores_outcome:
  "handleAcceptExecution now stamp out res s =
   handleAcceptExecution now stamp out (Response_ok ()) s"
  by (simp add: handleAcceptExecution_def accept_settle_def complete_tool_settle_logs_only
      split: option.split prod.split)

text \<open>
  Both handlers write to the run of the active task. Where that run holds the pending
  request, a rejection marks it failed and upserts the notice.
\<close>

lemma reject_settle_active_run:
  assumes "runs (registry s) t = Some r" and "actions r = pre @ p # post"
    and "action_id p \<notin> set (map action_id pre)"
  shows "run_actions (registry (reject_settle now stamp p t res s)) t =
           upsert (Some (''reject_'' @ decimal now))
             (\<lambda>prev. noticeAction now stamp (rejectMsg p))
             (pre @ p\<lparr>status := Failed\<rparr> # post)"
  using assms
  by (simp add: reject_settle_def complete_tool_settle_logs_only Let_def
      run_actions_updateAction runs_updateAction_same upsert_present status_updater_def
      noticeAction_def new_action_def)

text \<open>
  Claim C7 says that with a pending \<open>exec_request\<close> and an active task, rejecting marks
  the pending request failed and accepting marks it done, whatever the network does.
  In the session below the pending request \<open>c1\<close> belongs to run \<open>t1\<close> while the active
  task is \<open>t2\<close>. With the request answered successfully, rejecting leaves run \<open>t1\<close> as it
  was, \<open>c1\<close> still running and still the pending request, and puts a record with nothing
  but the status \<open>failed\<close> into run \<open>t2\<close>; accepting leaves \<open>c1\<close> pending as well.
\<close>

theorem reject_leaves_stale_request_running:
  "pendingExecRequest (registry stale_request_session) = Some (exec_request_action ''c1'' Running) \<and>
   currentTaskId stale_request_session = Some ''t2'' \<and>
   run_actions (registry (fst (handleRejectExecution 7 ''09:00:05'' (Response_ok ()) stale_request_session))) ''t1''
     = run_actions (registry stale_request_session) ''t1'' \<and>
   pendingExecRequest (registry (fst (handleRejectExecution 7 ''09:00:05'' (Response_ok ()) stale_request_session)))
     = Some (exec_request_action ''c1'' Running) \<and>
   run_actions (registry (fst (handleRejectExecution 7 ''09:00:05'' (Response_ok ()) stale_request_session))) ''t2''
     = [userAction 6 ''09:00:04'' ''try again'', status_updater Failed None,
        noticeAction 7 ''09:00:05'' (JStr ''declined'')] \<and>
   pendingExecRequest (registry (fst (handleAcceptExecution 7 ''09:00:05'' ''1'' (Response_ok ()) stale_request_session)))
     = Some (exec_request_action ''c1'' Running)"
  by (simp add: stale_pending stale_flags handleRejectExecution_def reject_begin_def
      reject_settle_def handleAcceptExecution_def accept_begin_def accept_settle_def
      active_task_def complete_tool_settle_def Let_def stale_registry updateAction_def
      pendingExecRequest_def timelineActions_def run_actions_def is_pending_def
      exec_request_action_def new_action_def userAction_def fail_notice_def
      status_updater_def noticeAction_def resultAction_def rejectMsg_def decimal_small)

section \<open>Identifiers within a run\<close>

text \<open>
  Claim C9 says that the action identifiers of a run are pairwise distinct in every
  reachable registry, also for synthesized actions made within one millisecond. In the
  working session, the completions of two \<open>think\<close> calls \<open>c1\<close> and \<open>c2\<close> processed at
  the same clock reading leave two \<open>assistant_thought\<close> actions with one identifier.
\<close>

theorem same_millisecond_thoughts_share_id:
  "map action_id (run_actions (registry (handleWSMessage 7 (think_completed ''c2'')
          (handleWSMessage 7 (think_completed ''c1'') working_session))) ''t1'') =
     [Some ''user_2'', Some ''c1'', Some ''thought_7'', Some ''c2'', Some ''thought_7''] \<and>
   \<not> distinct (map action_id (run_actions (registry (handleWSMessage 7 (think_completed ''c2'')
          (handleWSMessage 7 (think_completed ''c1'') working_session))) ''t1''))"
  by (simp add: fixture_defs model_defs decimal_small)

end
